theory Spec2Isabelle
  imports Complex_Main
begin

section \<open>Python values\<close>

text \<open>
  A Python float is modelled as its exact real value or one of the three special values
  of IEEE arithmetic. The range of a double is modelled: an integer too large for a
  double raises on conversion, and a finite result of arithmetic beyond the range
  overflows to an infinity or underflows to zero. The rounding of a finite result to 53
  bits and the sign of zero are not modelled: a finite result inside the range is
  exact.
\<close>

datatype pyfloat = Fin real | PInf | NInf | NaN

datatype exn = ValueError | TypeError | OverflowError | IndexError | KeyError
  | OSError | UnpicklingError | NotFittedError | ModelError string

text \<open>The values a decoded JSON document can hold.\<close>

datatype pyval = PyNone | PyBool bool | PyInt int | PyFloat pyfloat | PyStr string
  | PyList "pyval list" | PyDict "(string \<times> pyval) list"

type_synonym pydict = "string \<rightharpoonup> pyval"

text \<open>Python's \<open>a < b\<close> on floats: every comparison with NaN is false.\<close>

fun flt :: "pyfloat \<Rightarrow> pyfloat \<Rightarrow> bool" where
  "flt NaN _ = False"
| "flt _ NaN = False"
| "flt (Fin a) (Fin b) = (a < b)"
| "flt (Fin a) PInf = True"
| "flt (Fin a) NInf = False"
| "flt PInf _ = False"
| "flt NInf NInf = False"
| "flt NInf _ = True"

text \<open>
  \<open>float(v)\<close>. An \<open>int\<close> whose nearest double would be \<open>2 ^ 1024\<close> or beyond raises
  OverflowError; \<open>bool\<close> is a subclass of \<open>int\<close>; \<open>None\<close>, lists and dicts raise
  TypeError. What \<open>float\<close> does on a string is the parameter \<open>pf\<close>: \<open>None\<close> where it
  raises ValueError, the parsed value otherwise.
\<close>

definition float_overflow :: int where
  "float_overflow = 2 ^ 1024 - 2 ^ 970"

text \<open>
  The double of an exact result \<open>r\<close>, up to rounding: an infinity where the nearest
  double would be \<open>2 ^ 1024\<close> or beyond, zero where \<open>r\<close> is at most half the least
  positive double \<open>2 ^ -1074\<close>.
\<close>

definition in_range :: "real \<Rightarrow> pyfloat" where
  "in_range r =
     (if of_int float_overflow \<le> r then PInf
      else if r \<le> - of_int float_overflow then NInf
      else if \<bar>r\<bar> \<le> 1 / 2 ^ 1075 then Fin 0
      else Fin r)"

fun py_float :: "(string \<Rightarrow> pyfloat option) \<Rightarrow> pyval \<Rightarrow> exn + pyfloat" where
  "py_float pf PyNone = Inl TypeError"
| "py_float pf (PyBool b) = Inr (Fin (if b then 1 else 0))"
| "py_float pf (PyInt i) =
     (if \<bar>i\<bar> \<ge> float_overflow then Inl OverflowError else Inr (Fin (of_int i)))"
| "py_float pf (PyFloat x) = Inr x"
| "py_float pf (PyStr s) = (case pf s of None \<Rightarrow> Inl ValueError | Some x \<Rightarrow> Inr x)"
| "py_float pf (PyList vs) = Inl TypeError"
| "py_float pf (PyDict kvs) = Inl TypeError"

text \<open>\<open>xs[i]\<close> on a Python list: a negative index counts from the end.\<close>

definition py_index :: "'a list \<Rightarrow> int \<Rightarrow> exn + 'a" where
  "py_index xs i =
     (if 0 \<le> i \<and> i < int (length xs) then Inr (xs ! nat i)
      else if i < 0 \<and> - int (length xs) \<le> i then Inr (xs ! nat (int (length xs) + i))
      else Inl IndexError)"

text \<open>\<open>max(xs)\<close>: ValueError on an empty sequence.\<close>

definition py_max :: "real list \<Rightarrow> exn + real" where
  "py_max xs = (if xs = [] then Inl ValueError else Inr (Max (set xs)))"

text \<open>\<open>round(x, n)\<close> on a float: to the nearest multiple of \<open>10 ^ -n\<close>, ties to even.\<close>

definition round_half_even :: "real \<Rightarrow> int" where
  "round_half_even x =
     (let f = \<lfloor>x\<rfloor>; d = x - of_int f
      in if d < 1 / 2 then f else if 1 / 2 < d then f + 1
         else if even f then f else f + 1)"

definition py_round :: "real \<Rightarrow> nat \<Rightarrow> real" where
  "py_round x n = of_int (round_half_even (x * 10 ^ n)) / 10 ^ n"

text \<open>\<open>repr\<close> of a list of strings that hold no quote or escape, as in an f-string.\<close>

fun join_reprs :: "string list \<Rightarrow> string" where
  "join_reprs [] = []"
| "join_reprs [s] = [CHR 0x27] @ s @ [CHR 0x27]"
| "join_reprs (s # ss) = [CHR 0x27] @ s @ [CHR 0x27] @ '', '' @ join_reprs ss"

definition repr_list :: "string list \<Rightarrow> string" where
  "repr_list ss = ''['' @ join_reprs ss @ '']''"

section \<open>server/predict.py: StressPredictor\<close>

definition feature_names :: "string list" where
  "feature_names = [''heart_rate'', ''ecg'', ''emg'', ''gsr'', ''resp'']"

definition stress_classes :: "string list" where
  "stress_classes = [''low'', ''medium'', ''high'']"

text \<open>
  \<open>self.model\<close> is whatever was unpickled or the mock model: an object with the methods
  \<open>predict\<close> and \<open>predict_proba\<close>. Each is called on the one-row array and its row 0 is
  read, so the model is a pair of functions from the feature row to the label and to
  the row of class probabilities; either may raise.
\<close>

record classifier =
  model_predict :: "pyfloat list \<Rightarrow> exn + int"
  model_predict_proba :: "pyfloat list \<Rightarrow> exn + real list"

text \<open>
  The dict that \<open>predict\<close> returns. A field is \<open>None\<close> where the key is absent (or, for
  \<open>stress_level\<close>, where the value is Python's \<open>None\<close>). The f-string
  \<open>f"Prediction failed: {str(e)}"\<close> is kept as \<open>PredictionFailed e\<close>.
\<close>

datatype error_msg = Msg string | PredictionFailed exn

record prediction_result =
  error :: "error_msg option"
  stress_level :: "string option"
  confidence :: real
  probabilities :: "(string \<times> real) list option"
  features_used :: "string list option"

definition failure :: "error_msg \<Rightarrow> prediction_result" where
  "failure e = \<lparr>error = Some e, stress_level = None, confidence = 0,
     probabilities = None, features_used = None\<rparr>"

text \<open>The loop of \<open>validate_input\<close> over the required features (lines 104 to 110).\<close>

fun check_values :: "(string \<Rightarrow> pyfloat option) \<Rightarrow> pydict \<Rightarrow> string list \<Rightarrow> exn + (bool \<times> string)" where
  "check_values pf data [] = Inr (True, [])"
| "check_values pf data (feature # rest) =
     (case data feature of
        None \<Rightarrow> Inl KeyError
      | Some v \<Rightarrow>
          (case py_float pf v of
             Inl ValueError \<Rightarrow> Inr (False, ''Feature '' @ [CHR 0x27] @ feature @ [CHR 0x27] @ '' must be a number'')
           | Inl TypeError \<Rightarrow> Inr (False, ''Feature '' @ [CHR 0x27] @ feature @ [CHR 0x27] @ '' must be a number'')
           | Inl e \<Rightarrow> Inl e
           | Inr value \<Rightarrow>
               if flt value (Fin 0)
               then Inr (False, ''Feature '' @ [CHR 0x27] @ feature @ [CHR 0x27] @ '' must be non-negative'')
               else check_values pf data rest))"

definition validate_input :: "(string \<Rightarrow> pyfloat option) \<Rightarrow> pydict \<Rightarrow> exn + (bool \<times> string)" where
  "validate_input pf data =
     (let missing_features = filter (\<lambda>f. data f = None) feature_names
      in if missing_features \<noteq> []
         then Inr (False, ''Missing features: '' @ repr_list missing_features)
         else check_values pf data feature_names)"

text \<open>The list comprehension of lines 151 to 153.\<close>

fun features_of :: "(string \<Rightarrow> pyfloat option) \<Rightarrow> pydict \<Rightarrow> string list \<Rightarrow> exn + pyfloat list" where
  "features_of pf data [] = Inr []"
| "features_of pf data (feature # rest) =
     (case data feature of
        None \<Rightarrow> Inl KeyError
      | Some v \<Rightarrow>
          (case py_float pf v of
             Inl e \<Rightarrow> Inl e
           | Inr x \<Rightarrow>
               (case features_of pf data rest of
                  Inl e \<Rightarrow> Inl e
                | Inr xs \<Rightarrow> Inr (x # xs))))"

text \<open>
  The dict comprehension of lines 164 to 167: \<open>stress_classes[i]\<close> raises IndexError at
  the fourth probability.
\<close>

definition prob_dict :: "real list \<Rightarrow> exn + (string \<times> real) list" where
  "prob_dict ps =
     (if length ps > length stress_classes then Inl IndexError
      else Inr (zip stress_classes ps))"

text \<open>Lines 156 to 174, from the model call to the returned dict.\<close>

definition infer :: "classifier \<Rightarrow> pyfloat list \<Rightarrow> exn + prediction_result" where
  "infer m features =
     (case model_predict m features of
        Inl e \<Rightarrow> Inl e
      | Inr prediction \<Rightarrow>
     (case model_predict_proba m features of
        Inl e \<Rightarrow> Inl e
      | Inr ps \<Rightarrow>
     (case py_index stress_classes prediction of
        Inl e \<Rightarrow> Inl e
      | Inr level \<Rightarrow>
     (case py_max ps of
        Inl e \<Rightarrow> Inl e
      | Inr conf \<Rightarrow>
     (case prob_dict ps of
        Inl e \<Rightarrow> Inl e
      | Inr pd \<Rightarrow>
          Inr \<lparr>error = None, stress_level = Some level,
               confidence = py_round conf 4,
               probabilities = Some (map (\<lambda>(k, v). (k, py_round v 4)) pd),
               features_used = Some feature_names\<rparr>)))))"

text \<open>
  \<open>predict\<close>: \<open>Inl\<close> is an exception that escapes to the caller. The call of
  \<open>validate_input\<close> stands before the \<open>try\<close>; everything raised inside the \<open>try\<close> is
  turned into an error result.
\<close>

definition finish :: "exn + prediction_result \<Rightarrow> prediction_result" where
  "finish r = (case r of Inl e \<Rightarrow> failure (PredictionFailed e) | Inr res \<Rightarrow> res)"

definition predict :: "(string \<Rightarrow> pyfloat option) \<Rightarrow> classifier \<Rightarrow> pydict \<Rightarrow> exn + prediction_result" where
  "predict pf m data =
     (case validate_input pf data of
        Inl e \<Rightarrow> Inl e
      | Inr (is_valid, error_msg) \<Rightarrow>
          if \<not> is_valid then Inr (failure (Msg error_msg))
          else Inr (finish (case features_of pf data feature_names of
                              Inl e \<Rightarrow> Inl e
                            | Inr features \<Rightarrow> infer m features)))"

text \<open>
  \<open>batch_predict\<close>: the list comprehension stops at the first exception that escapes
  from \<open>predict\<close>, and no list is returned then.
\<close>

fun batch_predict :: "(string \<Rightarrow> pyfloat option) \<Rightarrow> classifier \<Rightarrow> pydict list \<Rightarrow> exn + prediction_result list" where
  "batch_predict pf m [] = Inr []"
| "batch_predict pf m (data # data_list) =
     (case predict pf m data of
        Inl e \<Rightarrow> Inl e
      | Inr r \<Rightarrow>
          (case batch_predict pf m data_list of
             Inl e \<Rightarrow> Inl e
           | Inr rs \<Rightarrow> Inr (r # rs)))"


definition returned_probabilities :: "prediction_result \<Rightarrow> real list" where
  "returned_probabilities r = (case probabilities r of None \<Rightarrow> [] | Some pd \<Rightarrow> map snd pd)"

section \<open>Arrays\<close>

text \<open>
  IEEE arithmetic on the special values, as numpy computes it (a division by zero or an
  invalid operation gives a warning and \<open>inf\<close> or \<open>nan\<close>, never an exception, and so does
  an overflow). A zero of the model stands for \<open>+0.0\<close>.
\<close>

fun fneg :: "pyfloat \<Rightarrow> pyfloat" where
  "fneg (Fin a) = Fin (- a)"
| "fneg PInf = NInf"
| "fneg NInf = PInf"
| "fneg NaN = NaN"

fun fabs :: "pyfloat \<Rightarrow> pyfloat" where
  "fabs (Fin a) = Fin \<bar>a\<bar>"
| "fabs PInf = PInf"
| "fabs NInf = PInf"
| "fabs NaN = NaN"

fun fadd :: "pyfloat \<Rightarrow> pyfloat \<Rightarrow> pyfloat" where
  "fadd NaN _ = NaN"
| "fadd _ NaN = NaN"
| "fadd (Fin a) (Fin b) = in_range (a + b)"
| "fadd PInf NInf = NaN"
| "fadd NInf PInf = NaN"
| "fadd PInf _ = PInf"
| "fadd _ PInf = PInf"
| "fadd NInf _ = NInf"
| "fadd _ NInf = NInf"

definition fsub :: "pyfloat \<Rightarrow> pyfloat \<Rightarrow> pyfloat" where
  "fsub x y = fadd x (fneg y)"

text \<open>The sign of a value that is not NaN: -1, 0 or 1.\<close>

fun fsgn :: "pyfloat \<Rightarrow> int" where
  "fsgn (Fin a) = (if a < 0 then - 1 else if a = 0 then 0 else 1)"
| "fsgn PInf = 1"
| "fsgn NInf = - 1"
| "fsgn NaN = 0"

definition signed_inf :: "int \<Rightarrow> pyfloat" where
  "signed_inf s = (if s = 0 then NaN else if 0 < s then PInf else NInf)"

fun fmul :: "pyfloat \<Rightarrow> pyfloat \<Rightarrow> pyfloat" where
  "fmul NaN _ = NaN"
| "fmul _ NaN = NaN"
| "fmul (Fin a) (Fin b) = in_range (a * b)"
| "fmul x y = signed_inf (fsgn x * fsgn y)"

fun fdiv :: "pyfloat \<Rightarrow> pyfloat \<Rightarrow> pyfloat" where
  "fdiv NaN _ = NaN"
| "fdiv _ NaN = NaN"
| "fdiv (Fin a) (Fin b) = (if b = 0 then signed_inf (fsgn (Fin a)) else in_range (a / b))"
| "fdiv (Fin a) _ = Fin 0"
| "fdiv x (Fin b) = signed_inf (fsgn x * (if b < 0 then - 1 else 1))"
| "fdiv _ _ = NaN"

fun fsqrt :: "pyfloat \<Rightarrow> pyfloat" where
  "fsqrt (Fin a) = (if a < 0 then NaN else Fin (sqrt a))"
| "fsqrt PInf = PInf"
| "fsqrt NInf = NaN"
| "fsqrt NaN = NaN"

fun is_nan :: "pyfloat \<Rightarrow> bool" where
  "is_nan NaN = True"
| "is_nan _ = False"

text \<open>
  A two-dimensional float array of shape \<open>(length (rows X), ncols X)\<close>. The number of
  columns is a field of its own: an array with no row still has its columns.
\<close>

record ndarray =
  ncols :: nat
  rows :: "pyfloat list list"

definition wf_array :: "ndarray \<Rightarrow> bool" where
  "wf_array X = list_all (\<lambda>r. length r = ncols X) (rows X)"

definition array :: "real list list \<Rightarrow> nat \<Rightarrow> ndarray" where
  "array rs n = \<lparr>ncols = n, rows = map (map Fin) rs\<rparr>"

text \<open>\<open>X[:, j]\<close>, the caller having checked \<open>j < ncols X\<close>.\<close>

definition column :: "ndarray \<Rightarrow> nat \<Rightarrow> pyfloat list" where
  "column X j = map (\<lambda>r. r ! j) (rows X)"

text \<open>
  \<open>a.mean()\<close> and \<open>a.std()\<close> over a list of elements: the sum divided by the count
  (\<open>0 / 0\<close> is NaN on no element), and the square root of the mean squared deviation.
\<close>

definition np_mean :: "pyfloat list \<Rightarrow> pyfloat" where
  "np_mean xs = fdiv (foldl fadd (Fin 0) xs) (Fin (real (length xs)))"

definition np_std :: "pyfloat list \<Rightarrow> pyfloat" where
  "np_std xs =
     (let mu = np_mean xs
      in fsqrt (np_mean (map (\<lambda>x. fmul (fsub x mu) (fsub x mu)) xs)))"

section \<open>ml_logic/preprocessing.py\<close>

subsection \<open>handle_missing_values\<close>

text \<open>
  pandas skips NaN in \<open>df.mean()\<close> and \<open>df.median()\<close>; a column with no other value has
  the statistic NaN, and \<open>fillna\<close> then leaves it as it is.
\<close>

fun insort_float :: "pyfloat \<Rightarrow> pyfloat list \<Rightarrow> pyfloat list" where
  "insort_float x [] = [x]"
| "insort_float x (y # ys) = (if flt y x then y # insort_float x ys else x # y # ys)"

definition sort_floats :: "pyfloat list \<Rightarrow> pyfloat list" where
  "sort_floats xs = foldr insort_float xs []"

definition nan_mean :: "pyfloat list \<Rightarrow> pyfloat" where
  "nan_mean xs = np_mean (filter (\<lambda>x. \<not> is_nan x) xs)"

definition nan_median :: "pyfloat list \<Rightarrow> pyfloat" where
  "nan_median xs =
     (let ys = sort_floats (filter (\<lambda>x. \<not> is_nan x) xs); n = length ys
      in if n = 0 then NaN
         else if odd n then ys ! (n div 2)
         else fdiv (fadd (ys ! (n div 2 - 1)) (ys ! (n div 2))) (Fin 2))"

text \<open>\<open>df.fillna(s)\<close>: a NaN in column \<open>j\<close> becomes \<open>s[j]\<close>.\<close>

definition fillna :: "ndarray \<Rightarrow> pyfloat list \<Rightarrow> ndarray" where
  "fillna X s = X\<lparr>rows := map (\<lambda>r. map2 (\<lambda>x v. if is_nan x then v else x) r s) (rows X)\<rparr>"

definition dropna :: "ndarray \<Rightarrow> ndarray" where
  "dropna X = X\<lparr>rows := filter (\<lambda>r. \<not> list_ex is_nan r) (rows X)\<rparr>"

definition handle_missing_values :: "ndarray \<Rightarrow> string \<Rightarrow> ndarray" where
  "handle_missing_values X strategy =
     (if strategy = ''mean'' then fillna X (map (\<lambda>j. nan_mean (column X j)) [0..<ncols X])
      else if strategy = ''median''
        then fillna X (map (\<lambda>j. nan_median (column X j)) [0..<ncols X])
      else if strategy = ''drop'' then dropna X
      else X)"

subsection \<open>remove_outliers\<close>

text \<open>
  \<open>X.mean()\<close> and \<open>X.std()\<close> carry no \<open>axis\<close>: they are taken over all elements of the
  array. \<open>X[mask]\<close> keeps the rows whose mask entry is true.
\<close>

definition remove_outliers :: "ndarray \<Rightarrow> pyfloat \<Rightarrow> ndarray" where
  "remove_outliers X threshold =
     (let mu = np_mean (concat (rows X));
          sd = np_std (concat (rows X));
          z_scores = map (map (\<lambda>x. fabs (fdiv (fsub x mu) sd))) (rows X);
          mask = map (list_all (\<lambda>z. flt z threshold)) z_scores
      in X\<lparr>rows := map fst (filter snd (zip (rows X) mask))\<rparr>)"

subsection \<open>augment_features\<close>

text \<open>
  \<open>X[:, 4]\<close> raises IndexError on an array with fewer than five columns, whatever its
  rows; nothing looks at a sixth column.
\<close>

definition eps :: real where
  "eps = 1 / 10 ^ 6"

definition augment_row :: "pyfloat list \<Rightarrow> pyfloat list" where
  "augment_row r =
     (let hr = r ! 0; ecg = r ! 1; emg = r ! 2; gsr = r ! 3; resp = r ! 4;
          hr_ecg_ratio = fdiv hr (fadd ecg (Fin eps));
          emg_gsr_product = fmul emg gsr;
          resp_hr_ratio = fdiv resp (fadd hr (Fin eps))
      in r @ [hr_ecg_ratio, emg_gsr_product, resp_hr_ratio])"

definition augment_features :: "ndarray \<Rightarrow> exn + ndarray" where
  "augment_features X =
     (if ncols X < 5 then Inl IndexError
      else Inr \<lparr>ncols = ncols X + 3, rows = map augment_row (rows X)\<rparr>)"

subsection \<open>preprocess_data\<close>

text \<open>
  The scaler is scikit-learn's: fitting an array gives the parameters \<open>'p\<close>, and
  transforming applies them; both are parameters of the model. A scaler object is
  \<open>None\<close> until it is fitted, and \<open>transform\<close> on an unfitted one raises NotFittedError.
\<close>

record 'p scaler_lib =
  scaler_fit :: "ndarray \<Rightarrow> exn + 'p"
  scaler_transform :: "'p \<Rightarrow> ndarray \<Rightarrow> exn + ndarray"

text \<open>
  \<open>preprocess_data(X, scaler, fit)\<close>. The argument \<open>scaler\<close> is \<open>None\<close> or the caller's
  scaler object. \<open>fit_transform\<close> stores the fitted parameters in the object it is
  called on. The function returns \<open>X_scaled\<close> alone; \<open>scaler_after\<close> is the caller's
  object after the call (\<open>None\<close> when the caller passed none: the \<open>StandardScaler()\<close>
  made at line 61 is a local).
\<close>

record 'p preprocessed =
  returned :: "exn + ndarray"
  scaler_after :: "'p option option"

definition preprocess_data :: "'p scaler_lib \<Rightarrow> ndarray \<Rightarrow> 'p option option \<Rightarrow> bool \<Rightarrow> 'p preprocessed" where
  "preprocess_data lib X scaler fit =
     (let obj = (case scaler of None \<Rightarrow> None | Some s \<Rightarrow> s);
          keep = (\<lambda>s. case scaler of None \<Rightarrow> None | Some _ \<Rightarrow> Some s)
      in if fit then
           (case scaler_fit lib X of
              Inl e \<Rightarrow> \<lparr>returned = Inl e, scaler_after = keep obj\<rparr>
            | Inr p \<Rightarrow> \<lparr>returned = scaler_transform lib p X, scaler_after = keep (Some p)\<rparr>)
         else
           (case obj of
              None \<Rightarrow> \<lparr>returned = Inl NotFittedError, scaler_after = keep obj\<rparr>
            | Some p \<Rightarrow> \<lparr>returned = scaler_transform lib p X, scaler_after = keep obj\<rparr>))"


section \<open>ml_logic/train.py: ModelTrainer\<close>

text \<open>
  The keyword arguments of \<open>RandomForestClassifier\<close>. An argument a call leaves out
  keeps the library's default, so a call is an update of the record of defaults.
\<close>

record rf_params =
  n_estimators :: nat
  max_depth :: "nat option"
  min_samples_split :: nat
  min_samples_leaf :: nat
  random_state :: "int option"
  n_jobs :: "int option"
  class_weight :: "string option"

text \<open>
  The library: the defaults of the constructor, and \<open>RandomForestClassifier(...).fit(X, y)\<close>
  as a function from the arguments and the training data to the fitted model.
\<close>

record forest_lib =
  forest_defaults :: rf_params
  forest_fit :: "rf_params \<Rightarrow> ndarray \<Rightarrow> int list \<Rightarrow> exn + classifier"

text \<open>The constructor call of \<open>ModelTrainer.train\<close> (lines 86 to 94).\<close>

definition train_params :: "rf_params \<Rightarrow> int \<Rightarrow> rf_params" where
  "train_params defaults seed =
     defaults\<lparr>n_estimators := 100, max_depth := Some 15, min_samples_split := 5,
       min_samples_leaf := 2, random_state := Some seed, n_jobs := Some (- 1),
       class_weight := Some ''balanced''\<rparr>"

record trainer =
  model_save_path :: string
  model :: "classifier option"
  metrics :: "(string \<times> (string \<times> real) list) list"

text \<open>
  The operating system, over a state \<open>'w\<close> of its own: \<open>os.path.exists\<close>, \<open>open\<close> and
  \<open>pickle.load\<close>, and \<open>open\<close> and \<open>pickle.dump\<close>, which gives the exception it raised,
  if any, and the state it left.
\<close>

record 'w os =
  os_exists :: "string \<Rightarrow> 'w \<Rightarrow> bool"
  os_load :: "string \<Rightarrow> 'w \<Rightarrow> exn + classifier"
  os_dump :: "string \<Rightarrow> classifier \<Rightarrow> 'w \<Rightarrow> exn option \<times> 'w"

text \<open>
  \<open>save_model\<close> gives its return value, the trainer after the call and the state of the
  operating system. No statement of the method assigns to a field of \<open>self\<close>.
\<close>

definition save_model :: "'w os \<Rightarrow> trainer \<Rightarrow> 'w \<Rightarrow> bool \<times> trainer \<times> 'w" where
  "save_model sys self w =
     (case model self of
        None \<Rightarrow> (False, self, w)
      | Some m \<Rightarrow>
          (case os_dump sys (model_save_path self) m w of
             (None, w') \<Rightarrow> (True, self, w')
           | (Some e, w') \<Rightarrow> (False, self, w')))"

section \<open>server/predict.py: loading the model\<close>

text \<open>
  numpy's random generator, over a state \<open>'g\<close> of its own: \<open>np.random.rand(n, m)\<close> and
  \<open>np.random.choice(a, n)\<close> each give their value and the next state.
\<close>

record 'g rng =
  np_rand :: "nat \<Rightarrow> nat \<Rightarrow> 'g \<Rightarrow> real list list \<times> 'g"
  np_choice :: "int list \<Rightarrow> nat \<Rightarrow> 'g \<Rightarrow> int list \<times> 'g"

text \<open>
  \<open>_create_mock_model\<close>: the model fitted on \<open>np.random.rand(100, 5) * 100\<close> and
  \<open>np.random.choice([0, 1, 2], 100)\<close>, and the state of the generator after the two
  draws.
\<close>

definition mock_params :: "rf_params \<Rightarrow> rf_params" where
  "mock_params defaults = defaults\<lparr>n_estimators := 100, random_state := Some 42, n_jobs := Some (- 1)\<rparr>"

definition X_mock :: "real list list \<Rightarrow> ndarray" where
  "X_mock U = \<lparr>ncols = 5, rows = map (map (\<lambda>u. fmul (Fin u) (Fin 100))) U\<rparr>"

definition create_mock_model :: "forest_lib \<Rightarrow> 'g rng \<Rightarrow> 'g \<Rightarrow> (exn + classifier) \<times> 'g" where
  "create_mock_model lib gen g =
     (let (U, g1) = np_rand gen 100 5 g;
          (y_mock, g2) = np_choice gen [0, 1, 2] 100 g1
      in (forest_fit lib (mock_params (forest_defaults lib)) (X_mock U) y_mock, g2))"

text \<open>
  \<open>load_model\<close>. An exception inside the \<open>try\<close>, also one of the mock model's
  construction there, leads to the handler, which constructs the mock model (again,
  from the next draws); what the handler raises escapes.
\<close>

definition load_model ::
  "'w os \<Rightarrow> forest_lib \<Rightarrow> 'g rng \<Rightarrow> string \<Rightarrow> 'w \<Rightarrow> 'g \<Rightarrow> (exn + classifier) \<times> 'g" where
  "load_model sys lib gen model_path w g =
     (case (if \<not> os_exists sys model_path w then create_mock_model lib gen g
            else (os_load sys model_path w, g)) of
        (Inl e, g') \<Rightarrow> create_mock_model lib gen g'
      | (Inr m, g') \<Rightarrow> (Inr m, g'))"

section \<open>Concrete instances\<close>

text \<open>
  For evaluating the functions on concrete inputs, the parameters need values.
  \<open>float_of_digits\<close> is \<open>float\<close> on the strings of decimal digits (Python accepts more
  strings than these).
\<close>

fun digits_value :: "nat \<Rightarrow> string \<Rightarrow> nat option" where
  "digits_value acc [] = Some acc"
| "digits_value acc (c # cs) =
     (if 48 \<le> (of_char c :: nat) \<and> (of_char c :: nat) \<le> 57
      then digits_value (10 * acc + (of_char c - 48)) cs else None)"

definition float_of_digits :: "string \<Rightarrow> pyfloat option" where
  "float_of_digits s =
     (if s = [] then None else map_option (\<lambda>n. Fin (real n)) (digits_value 0 s))"

text \<open>The example of the docstring of \<open>predict\<close>, and a decoded JSON body with an integer of 309 digits.\<close>

definition demo_input :: pydict where
  "demo_input = map_of
     [(''heart_rate'', PyInt 75), (''ecg'', PyFloat (Fin (1 / 2))),
      (''emg'', PyFloat (Fin (3 / 10))), (''gsr'', PyFloat (Fin (1 / 5))),
      (''resp'', PyFloat (Fin (2 / 5)))]"

definition huge :: int where
  "huge = 2 ^ 1024"

definition overflow_input :: pydict where
  "overflow_input = map_of
     [(''heart_rate'', PyInt (- huge)), (''ecg'', PyFloat (Fin (1 / 2))),
      (''emg'', PyFloat (Fin (3 / 10))), (''gsr'', PyFloat (Fin (1 / 5))),
      (''resp'', PyFloat (Fin (2 / 5)))]"


text \<open>A model whose three classes are equally likely on every input.\<close>

definition thirds :: classifier where
  "thirds = \<lparr>model_predict = (\<lambda>x. Inr 0),
     model_predict_proba = (\<lambda>x. Inr [1 / 3, 1 / 3, 1 / 3])\<rparr>"

text \<open>
  Standardisation as scikit-learn's \<open>StandardScaler\<close> computes it: the mean and the
  population standard deviation of each column, a zero deviation replaced by 1. NaN
  is a missing value, skipped when fitting and kept when transforming; an infinite
  value, an array without a row or without a column, and a number of columns other than
  the fitted one are refused with ValueError.
\<close>

fun is_inf :: "pyfloat \<Rightarrow> bool" where
  "is_inf PInf = True"
| "is_inf NInf = True"
| "is_inf _ = False"

definition column_scale :: "pyfloat list \<Rightarrow> pyfloat" where
  "column_scale xs =
     (let s = np_std (filter (\<lambda>x. \<not> is_nan x) xs) in if s = Fin 0 then Fin 1 else s)"

definition mean_std_scaler :: "(pyfloat list \<times> pyfloat list) scaler_lib" where
  "mean_std_scaler =
     \<lparr>scaler_fit = (\<lambda>X.
        if rows X = [] \<or> ncols X = 0 \<or> list_ex (list_ex is_inf) (rows X) then Inl ValueError
        else Inr (map (\<lambda>j. nan_mean (column X j)) [0..<ncols X],
                  map (\<lambda>j. column_scale (column X j)) [0..<ncols X])),
      scaler_transform = (\<lambda>p X.
        if rows X = [] \<or> ncols X = 0 \<or> list_ex (list_ex is_inf) (rows X)
           \<or> length (fst p) \<noteq> ncols X then Inl ValueError
        else Inr (X\<lparr>rows := map (\<lambda>r. map2 (\<lambda>x (mu, sd). fdiv (fsub x mu) sd) r (zip (fst p) (snd p)))
                                  (rows X)\<rparr>))\<rparr>"

text \<open>The documented defaults of scikit-learn's \<open>RandomForestClassifier\<close>.\<close>

definition sklearn_defaults :: rf_params where
  "sklearn_defaults = \<lparr>n_estimators = 100, max_depth = None, min_samples_split = 2,
     min_samples_leaf = 1, random_state = None, n_jobs = None, class_weight = None\<rparr>"

text \<open>
  A disk: the files it holds, each a pickled model or bytes that do not unpickle, and
  the paths that cannot be opened for writing.
\<close>

datatype artifact = Pickle classifier | Corrupt

record disk =
  files :: "string \<rightharpoonup> artifact"
  read_only :: "string list"

definition disk_os :: "disk os" where
  "disk_os =
     \<lparr>os_exists = (\<lambda>path d. files d path \<noteq> None),
      os_load = (\<lambda>path d. case files d path of
                   None \<Rightarrow> Inl OSError
                 | Some Corrupt \<Rightarrow> Inl UnpicklingError
                 | Some (Pickle m) \<Rightarrow> Inr m),
      os_dump = (\<lambda>path m d.
                   if path \<in> set (read_only d) then (Some OSError, d)
                   else (None, d\<lparr>files := (files d)(path \<mapsto> Pickle m)\<rparr>))\<rparr>"


text \<open>
  A training matrix of two samples, a trainer that holds a model, and a disk whose
  model path cannot be written.
\<close>

definition train_X :: ndarray where
  "train_X = array [[70, 0, 0, 0, 0], [80, 2, 2, 2, 2]] 5"

definition trained :: trainer where
  "trained = \<lparr>model_save_path = ''models/stress_model.pkl'', model = Some thirds, metrics = []\<rparr>"

definition stuck_disk :: disk where
  "stuck_disk = \<lparr>files = Map.empty, read_only = [''models/stress_model.pkl'']\<rparr>"

text \<open>A float that is at least zero (NaN is not).\<close>

fun nonneg :: "pyfloat \<Rightarrow> bool" where
  "nonneg (Fin r) = (0 \<le> r)"
| "nonneg PInf = True"
| "nonneg NInf = False"
| "nonneg NaN = False"

text \<open>
  What numpy documents of the two functions, for every argument and state:
  \<open>rand(n, m)\<close> is \<open>n\<close> rows of \<open>m\<close> values in \<open>[0, 1)\<close>, and \<open>choice(a, n)\<close> is \<open>n\<close>
  elements of a non-empty \<open>a\<close>.
\<close>

definition rng_contract :: "'g rng \<Rightarrow> bool" where
  "rng_contract gen =
     ((\<forall>n m g. length (fst (np_rand gen n m g)) = n
          \<and> list_all (\<lambda>r. length r = m \<and> list_all (\<lambda>u. 0 \<le> u \<and> u < 1) r)
                (fst (np_rand gen n m g)))
      \<and> (\<forall>a n g. a \<noteq> [] \<longrightarrow> length (fst (np_choice gen a n g)) = n
          \<and> list_all (\<lambda>l. l \<in> set a) (fst (np_choice gen a n g))))"

text \<open>
  A library whose every fit gives the model \<open>thirds\<close>; a generator whose state counts
  the draws, every value of \<open>rand\<close> being one half and every choice the element at the
  count; and a disk whose model file does not unpickle.
\<close>

definition constant_forest :: forest_lib where
  "constant_forest = \<lparr>forest_defaults = sklearn_defaults, forest_fit = (\<lambda>p X y. Inr thirds)\<rparr>"

definition counting_rng :: "nat rng" where
  "counting_rng =
     \<lparr>np_rand = (\<lambda>n m g. (replicate n (replicate m (1 / 2)), Suc g)),
      np_choice = (\<lambda>a n g. (replicate n (a ! (g mod length a)), Suc g))\<rparr>"

definition corrupt_disk :: disk where
  "corrupt_disk = \<lparr>files = [''models/stress_model.pkl'' \<mapsto> Corrupt], read_only = []\<rparr>"





section \<open>Inference: validation and the model call\<close>

lemma upt5: "[0..<5] = [0, 1, 2, 3, 4]"
  by (simp add: upt_rec)

lemma sqrt25: "sqrt 25 = 5"
  using real_sqrt_abs[of 5] by simp

lemma sqrt900: "sqrt 900 = 30"
  using real_sqrt_abs[of 30] by simp

lemma float_overflow_large: "(10 ^ 6 :: real) < of_int float_overflow"
proof -
  have "(10 ^ 6 :: int) < float_overflow"
    by (simp add: float_overflow_def)
  then have "real_of_int (10 ^ 6) < of_int float_overflow"
    by (simp only: of_int_less_iff)
  then show ?thesis by simp
qed

lemma least_double_small: "(1 / 2 ^ 1075 :: real) < 1 / 10 ^ 6"
proof -
  have "(10 :: real) ^ 6 < 2 ^ 20" by simp
  also have "(2 :: real) ^ 20 \<le> 2 ^ 1075" by (rule power_increasing) simp_all
  finally show ?thesis by (simp add: field_simps del: power_numeral)
qed

lemma in_range_zero: "in_range 0 = Fin 0"
  using float_overflow_large by (simp add: in_range_def)

lemma in_range_exact:
  assumes "1 / 10 ^ 6 \<le> \<bar>r\<bar>" and "\<bar>r\<bar> \<le> 10 ^ 6"
  shows "in_range r = Fin r"
proof -
  have "\<not> of_int float_overflow \<le> r" and "\<not> r \<le> - of_int float_overflow"
    using assms(2) float_overflow_large by linarith+
  moreover have "\<not> \<bar>r\<bar> \<le> 1 / 2 ^ 1075"
    using assms(1) least_double_small by linarith
  ultimately show ?thesis by (simp only: in_range_def if_False)
qed

lemma huge_overflows: "float_overflow \<le> huge"
  unfolding float_overflow_def huge_def
  by (rule order_trans[of _ "2 ^ 1024 - 0"]) (rule diff_left_mono, simp, simp)

lemma py_float_huge: "py_float pf (PyInt (- huge)) = Inl OverflowError"
proof -
  have "float_overflow \<le> \<bar>- huge\<bar>"
    using huge_overflows by linarith
  then show ?thesis by (simp only: py_float.simps if_True)
qed

lemma demo_valid: "validate_input pf demo_input = Inr (True, [])"
  by (simp add: validate_input_def demo_input_def feature_names_def float_overflow_def)

lemma demo_features:
  "features_of pf demo_input feature_names
     = Inr [Fin 75, Fin (1 / 2), Fin (3 / 10), Fin (1 / 5), Fin (2 / 5)]"
  by (simp add: demo_input_def feature_names_def float_overflow_def)

text \<open>
  C1. The claim: at inference the five raw values are transformed with the scaler
  fitted during training before the model is called. The code does otherwise. In
  training, \<open>main\<close> calls \<open>preprocess_data(X)\<close> (train.py, line 198): the model is fitted
  on standardised columns, and the scaler that was fitted is a local of
  \<open>preprocess_data\<close>, lost at its return. At inference, \<open>predict\<close> hands the values of
  the request to the model as they are: on the example of its docstring, whatever the
  model, it is asked about the heart rate 75, not about a standardised one.
\<close>

theorem predict_feeds_unscaled_features:
  "preprocess_data mean_std_scaler train_X None True
     = \<lparr>returned = Inr (array [[- 1, - 1, - 1, - 1, - 1], [1, 1, 1, 1, 1]] 5),
        scaler_after = None\<rparr>
   \<and> predict pf m demo_input
     = Inr (finish (infer m [Fin 75, Fin (1 / 2), Fin (3 / 10), Fin (1 / 5), Fin (2 / 5)]))"
proof -
  have "preprocess_data mean_std_scaler train_X None True
     = \<lparr>returned = Inr (array [[- 1, - 1, - 1, - 1, - 1], [1, 1, 1, 1, 1]] 5),
        scaler_after = None\<rparr>"
    by (simp add: preprocess_data_def mean_std_scaler_def train_X_def array_def upt5
        column_def np_mean_def nan_mean_def np_std_def column_scale_def fsub_def sqrt25
        in_range_zero in_range_exact)
  moreover have "predict pf m demo_input
     = Inr (finish (infer m [Fin 75, Fin (1 / 2), Fin (3 / 10), Fin (1 / 5), Fin (2 / 5)]))"
    by (simp add: predict_def demo_valid demo_features)
  ultimately show ?thesis by (rule conjI)
qed

text \<open>
  C2. The claim: a request with a missing key, a negative value or a value that is no
  number gets an error result, and no exception escapes. \<open>validate_input\<close> catches
  ValueError and TypeError around \<open>float\<close>, but \<open>float\<close> of an integer beyond the range
  of a double raises OverflowError, and the call of \<open>validate_input\<close> stands before the
  \<open>try\<close> of \<open>predict\<close>: on a request whose heart rate is the negative integer
  \<open>- 2 ^ 1024\<close>, the exception escapes from both.
\<close>

theorem predict_overflow_escapes:
  "validate_input pf overflow_input = Inl OverflowError
   \<and> predict pf m overflow_input = Inl OverflowError"
proof -
  have "validate_input pf overflow_input = Inl OverflowError"
    by (simp add: validate_input_def overflow_input_def feature_names_def py_float_huge
        del: py_float.simps(3))
  then show ?thesis by (simp add: predict_def)
qed





lemma infer_Inr:
  "infer m xs = Inr r \<Longrightarrow> error r = None \<and> stress_level r \<noteq> None \<and> probabilities r \<noteq> None"
  by (auto simp: infer_def split: sum.splits)


lemma round_third: "py_round (1 / 3) 4 = 3333 / 10000"
  by (simp add: py_round_def round_half_even_def)

lemma infer_thirds:
  "infer thirds xs = Inr \<lparr>error = None, stress_level = Some ''low'', confidence = 3333 / 10000,
        probabilities = Some [(''low'', 3333 / 10000), (''medium'', 3333 / 10000), (''high'', 3333 / 10000)],
        features_used = Some feature_names\<rparr>"
  by (simp add: infer_def thirds_def py_index_def stress_classes_def py_max_def prob_dict_def round_third)






lemma round_half_even_close: "\<bar>of_int (round_half_even x) - x\<bar> \<le> 1 / 2"
  unfolding round_half_even_def Let_def by (auto simp: abs_le_iff)

lemma round_half_even_mono:
  assumes "x \<le> y" shows "round_half_even x \<le> round_half_even y"
proof (cases "\<lfloor>x\<rfloor> = \<lfloor>y\<rfloor>")
  case True
  with assms show ?thesis
    unfolding round_half_even_def Let_def by auto
next
  case False
  with assms have "\<lfloor>x\<rfloor> + 1 \<le> \<lfloor>y\<rfloor>"
    using floor_mono[of x y] by linarith
  moreover have "round_half_even x \<le> \<lfloor>x\<rfloor> + 1"
    unfolding round_half_even_def Let_def by auto
  moreover have "\<lfloor>y\<rfloor> \<le> round_half_even y"
    unfolding round_half_even_def Let_def by auto
  ultimately show ?thesis by linarith
qed

lemma py_round_mono: "x \<le> y \<Longrightarrow> py_round x n \<le> py_round y n"
  unfolding py_round_def
  by (intro divide_right_mono of_int_le_iff[THEN iffD2] round_half_even_mono mult_right_mono) auto

lemma py_round4_close: "\<bar>py_round x 4 - x\<bar> \<le> 1 / 20000"
proof -
  have "\<bar>of_int (round_half_even (x * 10000)) - x * 10000\<bar> \<le> 1 / 2"
    by (rule round_half_even_close)
  then show ?thesis
    unfolding py_round_def by (simp add: abs_le_iff field_simps)
qed

lemma sum_round_close:
  "\<bar>(\<Sum>p\<leftarrow>ps. py_round p 4) - sum_list ps\<bar> \<le> real (length ps) / 20000"
proof (induction ps)
  case Nil
  then show ?case by simp
next
  case (Cons p ps)
  have "\<bar>py_round p 4 - p\<bar> \<le> 1 / 20000" by (rule py_round4_close)
  with Cons have "\<bar>(py_round p 4 - p) + ((\<Sum>p\<leftarrow>ps. py_round p 4) - sum_list ps)\<bar>
      \<le> 1 / 20000 + real (length ps) / 20000"
    by (intro order_trans[OF abs_triangle_ineq] add_mono)
  then show ?case by (simp add: algebra_simps add_divide_distrib)
qed

lemma Max_py_round:
  assumes "ps \<noteq> []"
  shows "Max (set (map (\<lambda>p. py_round p n) ps)) = py_round (Max (set ps)) n"
proof -
  have "mono (\<lambda>p. py_round p n)" by (simp add: mono_def py_round_mono)
  from mono_Max_commute[OF this, of "set ps"] assms show ?thesis by simp
qed

lemma returned_values:
  assumes "length ps \<le> length stress_classes"
  shows "map snd (map (\<lambda>(k, v). (k, py_round v 4)) (zip stress_classes ps))
           = map (\<lambda>p. py_round p 4) ps"
proof -
  have "map snd (map (\<lambda>(k, v). (k, py_round v 4)) (zip stress_classes ps))
        = map (\<lambda>p. py_round p 4) (map snd (zip stress_classes ps))"
    by (simp add: case_prod_beta comp_def)
  also have "map snd (zip stress_classes ps) = ps"
    using assms by (simp add: map_snd_zip_take)
  finally show ?thesis .
qed

lemma py_index_in_range:
  "- int (length xs) \<le> i \<Longrightarrow> i < int (length xs) \<Longrightarrow> \<exists>x. py_index xs i = Inr x"
  by (simp add: py_index_def)

text \<open>
  C3, as amended. Let the request be valid and let the model answer with a class and
  with at most three probabilities that sum to 1. Then the probabilities that \<open>predict\<close>
  returns are those of the model, each rounded to 4 digits; the returned confidence is
  the greatest of the returned probabilities; and the returned probabilities sum to 1
  within \<open>3 / 20000\<close>. They need not sum to 1 within \<open>1 / 10 ^ 6\<close>, as the claim has it:
  three classes of probability \<open>1 / 3\<close> are returned as \<open>0.3333\<close> each.
\<close>

theorem predict_rounded_probabilities:
  assumes "validate_input pf data = Inr (True, [])"
    and "features_of pf data feature_names = Inr xs"
    and "model_predict m xs = Inr c" and "- 3 \<le> c \<and> c < 3"
    and "model_predict_proba m xs = Inr ps"
    and "ps \<noteq> []" and "length ps \<le> 3" and "sum_list ps = 1"
  shows "\<exists>r. predict pf m data = Inr r \<and> error r = None
           \<and> returned_probabilities r = map (\<lambda>p. py_round p 4) ps
           \<and> confidence r = Max (set (returned_probabilities r))
           \<and> \<bar>sum_list (returned_probabilities r) - 1\<bar> \<le> 3 / 20000"
proof -
  have "- int (length stress_classes) \<le> c" and "c < int (length stress_classes)"
    using assms(4) by (simp_all add: stress_classes_def)
  then obtain level where level: "py_index stress_classes c = Inr level"
    using py_index_in_range by blast
  have len: "length ps \<le> length stress_classes"
    using assms(7) by (simp add: stress_classes_def)
  define r where "r = \<lparr>error = None, stress_level = Some level,
       confidence = py_round (Max (set ps)) 4,
       probabilities = Some (map (\<lambda>(k, v). (k, py_round v 4)) (zip stress_classes ps)),
       features_used = Some feature_names\<rparr>"
  have "infer m xs = Inr r"
    using assms(3,5,6) level len by (simp add: infer_def py_max_def prob_dict_def r_def)
  then have p: "predict pf m data = Inr r"
    using assms(1,2) by (simp add: predict_def finish_def)
  have vals: "returned_probabilities r = map (\<lambda>p. py_round p 4) ps"
    using returned_values[OF len] by (simp add: returned_probabilities_def r_def)
  have conf: "confidence r = Max (set (returned_probabilities r))"
    unfolding vals using Max_py_round[OF assms(6), of 4] by (simp add: r_def)
  have "\<bar>(\<Sum>p\<leftarrow>ps. py_round p 4) - sum_list ps\<bar> \<le> real (length ps) / 20000"
    by (rule sum_round_close)
  also have "\<dots> \<le> 3 / 20000"
    using assms(7) by simp
  finally have "\<bar>sum_list (returned_probabilities r) - 1\<bar> \<le> 3 / 20000"
    using assms(8) by (simp add: vals)
  with p vals conf show ?thesis by (auto simp: r_def)
qed

lemma predict_thirds_demo:
  "predict pf thirds demo_input
     = Inr \<lparr>error = None, stress_level = Some ''low'', confidence = 3333 / 10000,
        probabilities = Some [(''low'', 3333 / 10000), (''medium'', 3333 / 10000), (''high'', 3333 / 10000)],
        features_used = Some feature_names\<rparr>"
  by (simp add: predict_def demo_valid demo_features infer_thirds finish_def)

theorem rounded_probabilities_sum_counterexample:
  "validate_input float_of_digits demo_input = Inr (True, [])
   \<and> predict float_of_digits thirds demo_input
     = Inr \<lparr>error = None, stress_level = Some ''low'', confidence = 3333 / 10000,
        probabilities = Some [(''low'', 3333 / 10000), (''medium'', 3333 / 10000), (''high'', 3333 / 10000)],
        features_used = Some feature_names\<rparr>
   \<and> \<not> \<bar>sum_list (returned_probabilities
          \<lparr>error = None, stress_level = Some ''low'', confidence = 3333 / 10000,
           probabilities = Some [(''low'', 3333 / 10000), (''medium'', 3333 / 10000), (''high'', 3333 / 10000)],
           features_used = Some feature_names\<rparr>) - 1\<bar> \<le> 1 / 10 ^ 6"
  by (simp add: demo_valid predict_thirds_demo returned_probabilities_def)

theorem predict_rounded_probabilities_witness:
  "validate_input float_of_digits demo_input = Inr (True, [])
   \<and> features_of float_of_digits demo_input feature_names
       = Inr [Fin 75, Fin (1 / 2), Fin (3 / 10), Fin (1 / 5), Fin (2 / 5)]
   \<and> model_predict thirds [Fin 75, Fin (1 / 2), Fin (3 / 10), Fin (1 / 5), Fin (2 / 5)] = Inr 0
   \<and> model_predict_proba thirds [Fin 75, Fin (1 / 2), Fin (3 / 10), Fin (1 / 5), Fin (2 / 5)]
       = Inr [1 / 3, 1 / 3, 1 / 3]
   \<and> sum_list [1 / 3, 1 / 3, 1 / 3 :: real] = 1
   \<and> (\<exists>r. predict float_of_digits thirds demo_input = Inr r \<and> error r = None
         \<and> returned_probabilities r = [3333 / 10000, 3333 / 10000, 3333 / 10000]
         \<and> confidence r = Max (set (returned_probabilities r))
         \<and> \<bar>sum_list (returned_probabilities r) - 1\<bar> \<le> 3 / 20000)"
proof -
  let ?xs = "[Fin 75, Fin (1 / 2), Fin (3 / 10), Fin (1 / 5), Fin (2 / 5)]"
  have h3: "model_predict thirds ?xs = Inr 0"
    by (simp add: thirds_def)
  have h4: "- 3 \<le> (0 :: int) \<and> (0 :: int) < 3"
    by simp
  have h5: "model_predict_proba thirds ?xs = Inr [1 / 3, 1 / 3, 1 / 3]"
    by (simp add: thirds_def)
  have h6: "[1 / 3, 1 / 3, 1 / 3 :: real] \<noteq> []" and h7: "length [1 / 3, 1 / 3, 1 / 3 :: real] \<le> 3"
    and h8: "sum_list [1 / 3, 1 / 3, 1 / 3 :: real] = 1"
    by simp_all
  from predict_rounded_probabilities [OF demo_valid demo_features h3 h4 h5 h6 h7 h8]
  have "\<exists>r. predict float_of_digits thirds demo_input = Inr r \<and> error r = None
         \<and> returned_probabilities r = [3333 / 10000, 3333 / 10000, 3333 / 10000]
         \<and> confidence r = Max (set (returned_probabilities r))
         \<and> \<bar>sum_list (returned_probabilities r) - 1\<bar> \<le> 3 / 20000"
    by (simp add: round_third)
  with demo_valid demo_features h3 h5 h8 show ?thesis by blast
qed

section \<open>Preprocessing\<close>

text \<open>
  C4. The claim: \<open>remove_outliers\<close> takes the z-score of each value with the mean and
  the deviation of its own column, and on a column without variance it keeps all rows.
  The code takes one mean and one deviation over the whole array and has no guard for a
  zero deviation: on the constant array \<open>[[5, 5], [5, 5]]\<close> every z-score is
  \<open>0 / 0\<close>, NaN is not below the threshold, and no row is kept. On two samples whose
  last feature is 0 and 100 (a z-score of 1 in its own column, the other columns
  constant), the mean over all ten values is 10 and the deviation 30: the value 100 has
  the z-score 3 and its row is removed.
\<close>

theorem remove_outliers_constant_array:
  "remove_outliers (array [[5, 5], [5, 5]] 2) (Fin 3) = array [] 2
   \<and> remove_outliers (array [[0, 0, 0, 0, 0], [0, 0, 0, 0, 100]] 5) (Fin 3)
       = array [[0, 0, 0, 0, 0]] 5"
  by (simp add: remove_outliers_def array_def np_mean_def np_std_def fsub_def signed_inf_def
      sqrt900 in_range_zero in_range_exact)

text \<open>
  C10. A strategy other than \<open>mean\<close>, \<open>median\<close> and \<open>drop\<close> is not rejected:
  \<open>handle_missing_values\<close> returns the array it was given.
\<close>

theorem handle_missing_values_unknown_strategy:
  "strategy \<notin> {''mean'', ''median'', ''drop''} \<Longrightarrow> handle_missing_values X strategy = X"
  by (simp add: handle_missing_values_def)

theorem handle_missing_values_unknown_strategy_witness:
  "''zero'' \<notin> {''mean'', ''median'', ''drop''}
   \<and> handle_missing_values \<lparr>ncols = 2, rows = [[Fin 1, NaN], [NaN, Fin 4]]\<rparr> ''zero''
       = \<lparr>ncols = 2, rows = [[Fin 1, NaN], [NaN, Fin 4]]\<rparr>"
  using handle_missing_values_unknown_strategy
    [of "''zero''" "\<lparr>ncols = 2, rows = [[Fin 1, NaN], [NaN, Fin 4]]\<rparr>"]
  by simp

text \<open>
  C6, as amended. \<open>augment_features\<close> fails, with IndexError, on an array of fewer than
  five columns. On an array of five or more columns it succeeds: it appends to each row
  the three derived values \<open>hr / (ecg + 1e-6)\<close>, \<open>emg * gsr\<close> and \<open>resp / (hr + 1e-6)\<close>,
  computed from the first five columns. An array of six columns is not rejected, as the
  claim has it.
\<close>

theorem augment_features_columns:
  assumes "wf_array X"
  shows "(ncols X < 5 \<longrightarrow> augment_features X = Inl IndexError)
    \<and> (5 \<le> ncols X \<longrightarrow>
         (\<exists>Y. augment_features X = Inr Y \<and> wf_array Y \<and> ncols Y = ncols X + 3
            \<and> rows Y = map (\<lambda>r. r @ [fdiv (r ! 0) (fadd (r ! 1) (Fin (1 / 10 ^ 6))),
                                      fmul (r ! 2) (r ! 3),
                                      fdiv (r ! 4) (fadd (r ! 0) (Fin (1 / 10 ^ 6)))]) (rows X)))"
  using assms
  by (auto simp: augment_features_def augment_row_def wf_array_def eps_def list_all_iff Let_def)

theorem augment_features_six_columns_counterexample:
  "wf_array (array [[1, 2, 3, 4, 5, 6]] 6) \<and> ncols (array [[1, 2, 3, 4, 5, 6]] 6) = 6
   \<and> augment_features (array [[1, 2, 3, 4, 5, 6]] 6)
     = Inr \<lparr>ncols = 9, rows = [[Fin 1, Fin 2, Fin 3, Fin 4, Fin 5, Fin 6,
              Fin (1000000 / 2000001), Fin 12, Fin (5000000 / 1000001)]]\<rparr>"
  by (simp add: wf_array_def array_def augment_features_def augment_row_def eps_def
      in_range_exact)

theorem augment_features_columns_witness:
  "wf_array (array [[1, 2, 3, 4]] 4) \<and> ncols (array [[1, 2, 3, 4]] 4) < 5
   \<and> augment_features (array [[1, 2, 3, 4]] 4) = Inl IndexError
   \<and> wf_array (array [[1, 2, 3, 4, 5]] 5) \<and> 5 \<le> ncols (array [[1, 2, 3, 4, 5]] 5)
   \<and> augment_features (array [[1, 2, 3, 4, 5]] 5)
       = Inr \<lparr>ncols = 8, rows = [[Fin 1, Fin 2, Fin 3, Fin 4, Fin 5,
            Fin (1000000 / 2000001), Fin 12, Fin (5000000 / 1000001)]]\<rparr>"
proof -
  have w4: "wf_array (array [[1, 2, 3, 4]] 4)" and n4: "ncols (array [[1, 2, 3, 4]] 4) < 5"
    and w5: "wf_array (array [[1, 2, 3, 4, 5]] 5)" and n5: "5 \<le> ncols (array [[1, 2, 3, 4, 5]] 5)"
    by (simp_all add: wf_array_def array_def)
  from augment_features_columns [OF w4] n4
  have a: "augment_features (array [[1, 2, 3, 4]] 4) = Inl IndexError"
    by blast
  from augment_features_columns [OF w5] n5
  obtain Y where "augment_features (array [[1, 2, 3, 4, 5]] 5) = Inr Y"
    and "ncols Y = ncols (array [[1, 2, 3, 4, 5]] 5) + 3"
    and "rows Y = map (\<lambda>r. r @ [fdiv (r ! 0) (fadd (r ! 1) (Fin (1 / 10 ^ 6))),
                                      fmul (r ! 2) (r ! 3),
                                      fdiv (r ! 4) (fadd (r ! 0) (Fin (1 / 10 ^ 6)))])
                   (rows (array [[1, 2, 3, 4, 5]] 5))"
    by blast
  then have b: "augment_features (array [[1, 2, 3, 4, 5]] 5)
       = Inr \<lparr>ncols = 8, rows = [[Fin 1, Fin 2, Fin 3, Fin 4, Fin 5,
            Fin (1000000 / 2000001), Fin 12, Fin (5000000 / 1000001)]]\<rparr>"
    by (simp add: array_def in_range_exact)
  from w4 n4 a w5 n5 b show ?thesis by blast
qed

text \<open>
  C7. The claim: with \<open>fit\<close> true, \<open>preprocess_data\<close> returns the scaled array and the
  fitted parameters, as its docstring says ("Scaled feature array and scaler object").
  The code returns the scaled array alone. Called without a scaler, as \<open>main\<close> calls it,
  it leaves the caller no scaler at all: the one it fitted was its local.
\<close>

theorem preprocess_data_returns_no_scaler:
  "scaler_after (preprocess_data lib X None fit) = None
   \<and> preprocess_data mean_std_scaler (array [[1, 2], [3, 4]] 2) None True
     = \<lparr>returned = Inr (array [[- 1, - 1], [1, 1]] 2), scaler_after = None\<rparr>"
proof -
  have "scaler_after (preprocess_data lib X None fit) = None"
    by (simp add: preprocess_data_def split: sum.splits)
  moreover have "preprocess_data mean_std_scaler (array [[1, 2], [3, 4]] 2) None True
     = \<lparr>returned = Inr (array [[- 1, - 1], [1, 1]] 2), scaler_after = None\<rparr>"
    by (simp add: preprocess_data_def mean_std_scaler_def array_def upt_rec
        column_def np_mean_def nan_mean_def np_std_def column_scale_def fsub_def
        in_range_zero in_range_exact)
  ultimately show ?thesis by (rule conjI)
qed

section \<open>Saving the model\<close>

text \<open>
  C8. When writing the model fails, \<open>save_model\<close> reports the failure by its return
  value \<open>False\<close> and raises nothing; the trainer is what it was and still holds the
  model.
\<close>

theorem save_model_failure_keeps_trainer:
  assumes "model self = Some m"
    and "os_dump sys (model_save_path self) m w = (Some e, w')"
  shows "save_model sys self w = (False, self, w')
         \<and> model (fst (snd (save_model sys self w))) = Some m"
  using assms by (simp add: save_model_def)

theorem save_model_failure_keeps_trainer_witness:
  "model trained = Some thirds
   \<and> os_dump disk_os (model_save_path trained) thirds stuck_disk = (Some OSError, stuck_disk)
   \<and> save_model disk_os trained stuck_disk = (False, trained, stuck_disk)
   \<and> model (fst (snd (save_model disk_os trained stuck_disk))) = Some thirds"
proof -
  have h1: "model trained = Some thirds"
    by (simp add: trained_def)
  have h2: "os_dump disk_os (model_save_path trained) thirds stuck_disk = (Some OSError, stuck_disk)"
    by (simp add: disk_os_def trained_def stuck_disk_def)
  show ?thesis
    using save_model_failure_keeps_trainer [OF h1 h2] h1 h2 by simp
qed

section \<open>Loading the model\<close>

lemma mock_entry:
  assumes "0 \<le> u" and "u < 1"
  shows "nonneg (fmul (Fin u) (Fin 100)) \<and> flt (fmul (Fin u) (Fin 100)) (Fin 100)"
proof -
  have b: "u * 100 < 10 ^ 6" and b': "- (10 ^ 6) < u * 100"
    using assms by simp_all
  have "\<not> of_int float_overflow \<le> u * 100"
    using b float_overflow_large by linarith
  moreover have "\<not> u * 100 \<le> - of_int float_overflow"
    using b' float_overflow_large by linarith
  ultimately have "in_range (u * 100) = Fin 0 \<or> in_range (u * 100) = Fin (u * 100)"
    by (simp add: in_range_def)
  with assms show ?thesis by auto
qed

lemma mock_data:
  assumes "rng_contract gen"
  shows "wf_array (X_mock (fst (np_rand gen 100 5 g)))
    \<and> ncols (X_mock (fst (np_rand gen 100 5 g))) = 5
    \<and> length (rows (X_mock (fst (np_rand gen 100 5 g)))) = 100
    \<and> list_all (list_all (\<lambda>x. nonneg x \<and> flt x (Fin 100)))
         (rows (X_mock (fst (np_rand gen 100 5 g))))
    \<and> length (fst (np_choice gen [0, 1, 2] 100 g')) = 100
    \<and> list_all (\<lambda>l. l \<in> set [0, 1, 2]) (fst (np_choice gen [0, 1, 2] 100 g'))"
proof -
  from assms have r: "length (fst (np_rand gen 100 5 g)) = 100"
    and e: "list_all (\<lambda>r. length r = 5 \<and> list_all (\<lambda>u. 0 \<le> u \<and> u < 1) r) (fst (np_rand gen 100 5 g))"
    unfolding rng_contract_def by blast+
  from assms have c: "length (fst (np_choice gen [0, 1, 2] 100 g')) = 100
      \<and> list_all (\<lambda>l. l \<in> set [0, 1, 2]) (fst (np_choice gen [0, 1, 2] 100 g'))"
    unfolding rng_contract_def by blast
  from e have "wf_array (X_mock (fst (np_rand gen 100 5 g)))"
    by (auto simp: X_mock_def wf_array_def list_all_iff)
  moreover from e have "list_all (list_all (\<lambda>x. nonneg x \<and> flt x (Fin 100)))
         (rows (X_mock (fst (np_rand gen 100 5 g))))"
    using mock_entry by (auto simp: X_mock_def list_all_iff simp del: fmul.simps)
  ultimately show ?thesis
    using r c by (simp add: X_mock_def)
qed

lemma create_mock_model_eq:
  "fst (create_mock_model lib gen g)
     = forest_fit lib (mock_params (forest_defaults lib)) (X_mock (fst (np_rand gen 100 5 g)))
         (fst (np_choice gen [0, 1, 2] 100 (snd (np_rand gen 100 5 g))))"
  by (simp add: create_mock_model_def split: prod.splits)

lemma mock_params_fields:
  "n_estimators (mock_params d) = 100 \<and> random_state (mock_params d) = Some 42
   \<and> n_jobs (mock_params d) = Some (- 1)
   \<and> max_depth (mock_params d) = max_depth d
   \<and> min_samples_split (mock_params d) = min_samples_split d
   \<and> min_samples_leaf (mock_params d) = min_samples_leaf d
   \<and> class_weight (mock_params d) = class_weight d"
  by (simp add: mock_params_def)

lemma load_model_mock:
  assumes "\<not> os_exists sys path w \<or> (\<exists>e. os_load sys path w = Inl e)"
  shows "\<exists>g1. fst (load_model sys lib gen path w g) = fst (create_mock_model lib gen g1)"
proof (cases "os_exists sys path w")
  case False
  obtain r g' where c: "create_mock_model lib gen g = (r, g')"
    by (cases "create_mock_model lib gen g")
  show ?thesis
  proof (cases r)
    case (Inl e)
    with False c have "load_model sys lib gen path w g = create_mock_model lib gen g'"
      by (simp add: load_model_def)
    then show ?thesis by auto
  next
    case (Inr m)
    with False c have "fst (load_model sys lib gen path w g) = fst (create_mock_model lib gen g)"
      by (simp add: load_model_def)
    then show ?thesis by auto
  qed
next
  case True
  with assms obtain e where "os_load sys path w = Inl e" by blast
  with True have "load_model sys lib gen path w g = create_mock_model lib gen g"
    by (simp add: load_model_def)
  then show ?thesis by auto
qed

text \<open>
  C5, as amended. Let the generator keep what numpy documents of \<open>rand\<close> and \<open>choice\<close>.
  When the artifact is absent or does not load, the model that \<open>load_model\<close> gives is the
  fit of a classifier constructed with 100 trees, seed 42 and parallel construction,
  every other argument (maximal depth, samples to split, samples per leaf, class
  weights) left at the library's default, on \<open>rand(100, 5) * 100\<close>, which is 100 rows of
  5 features in \<open>[0, 100)\<close>, and on \<open>choice([0, 1, 2], 100)\<close>, which is 100 labels out of
  \<open>0, 1, 2\<close>. The maximal depth 15 and the minimal samples 5 and 2 of the trained model
  are not among its arguments, as the claim has it.
\<close>

theorem load_model_falls_back_to_mock:
  assumes "rng_contract gen"
    and "\<not> os_exists sys path w \<or> (\<exists>e. os_load sys path w = Inl e)"
  shows "\<exists>g1 X y.
      X = X_mock (fst (np_rand gen 100 5 g1))
    \<and> y = fst (np_choice gen [0, 1, 2] 100 (snd (np_rand gen 100 5 g1)))
    \<and> fst (load_model sys lib gen path w g)
        = forest_fit lib (mock_params (forest_defaults lib)) X y
    \<and> n_estimators (mock_params (forest_defaults lib)) = 100
    \<and> random_state (mock_params (forest_defaults lib)) = Some 42
    \<and> n_jobs (mock_params (forest_defaults lib)) = Some (- 1)
    \<and> max_depth (mock_params (forest_defaults lib)) = max_depth (forest_defaults lib)
    \<and> min_samples_split (mock_params (forest_defaults lib)) = min_samples_split (forest_defaults lib)
    \<and> min_samples_leaf (mock_params (forest_defaults lib)) = min_samples_leaf (forest_defaults lib)
    \<and> class_weight (mock_params (forest_defaults lib)) = class_weight (forest_defaults lib)
    \<and> wf_array X \<and> ncols X = 5 \<and> length (rows X) = 100
    \<and> list_all (list_all (\<lambda>x. nonneg x \<and> flt x (Fin 100))) (rows X)
    \<and> length y = 100 \<and> list_all (\<lambda>l. l \<in> set [0, 1, 2]) y"
proof -
  from load_model_mock [OF assms(2), of lib gen g]
  obtain g1 where l: "fst (load_model sys lib gen path w g) = fst (create_mock_model lib gen g1)"
    by auto
  from l create_mock_model_eq [of lib gen g1]
    mock_data [OF assms(1), of g1 "snd (np_rand gen 100 5 g1)"]
    mock_params_fields [of "forest_defaults lib"]
  show ?thesis by (intro exI [of _ g1]) simp
qed

theorem mock_model_hyperparameters_counterexample:
  "max_depth (mock_params sklearn_defaults) = None
   \<and> max_depth (train_params sklearn_defaults 42) = Some 15
   \<and> min_samples_split (mock_params sklearn_defaults) = 2
   \<and> min_samples_split (train_params sklearn_defaults 42) = 5
   \<and> min_samples_leaf (mock_params sklearn_defaults) = 1
   \<and> min_samples_leaf (train_params sklearn_defaults 42) = 2"
  by (simp add: mock_params_def train_params_def sklearn_defaults_def)

lemma counting_rng_contract: "rng_contract counting_rng"
  by (simp add: rng_contract_def counting_rng_def list_all_iff)

theorem load_model_falls_back_to_mock_witness:
  "rng_contract counting_rng
   \<and> \<not> os_exists disk_os ''models/stress_model.pkl'' stuck_disk
   \<and> os_load disk_os ''models/stress_model.pkl'' corrupt_disk = Inl UnpicklingError
   \<and> (\<exists>X y. fst (load_model disk_os constant_forest counting_rng ''models/stress_model.pkl'' stuck_disk 0)
                = forest_fit constant_forest (mock_params sklearn_defaults) X y
          \<and> max_depth (mock_params sklearn_defaults) = None
          \<and> ncols X = 5 \<and> length (rows X) = 100 \<and> length y = 100)
   \<and> (\<exists>X y. fst (load_model disk_os constant_forest counting_rng ''models/stress_model.pkl'' corrupt_disk 0)
                = forest_fit constant_forest (mock_params sklearn_defaults) X y
          \<and> max_depth (mock_params sklearn_defaults) = None
          \<and> ncols X = 5 \<and> length (rows X) = 100 \<and> length y = 100)"
proof -
  have h1: "\<not> os_exists disk_os ''models/stress_model.pkl'' stuck_disk"
    by (simp add: disk_os_def stuck_disk_def)
  have h2: "os_load disk_os ''models/stress_model.pkl'' corrupt_disk = Inl UnpicklingError"
    by (simp add: disk_os_def corrupt_disk_def)
  have d: "forest_defaults constant_forest = sklearn_defaults"
    and n: "max_depth sklearn_defaults = None"
    by (simp_all add: constant_forest_def sklearn_defaults_def)
  from h1 have a1: "\<not> os_exists disk_os ''models/stress_model.pkl'' stuck_disk
      \<or> (\<exists>e. os_load disk_os ''models/stress_model.pkl'' stuck_disk = Inl e)"
    by blast
  from h2 have a2: "\<not> os_exists disk_os ''models/stress_model.pkl'' corrupt_disk
      \<or> (\<exists>e. os_load disk_os ''models/stress_model.pkl'' corrupt_disk = Inl e)"
    by blast
  from load_model_falls_back_to_mock [OF counting_rng_contract a1, of constant_forest 0]
  have c1: "\<exists>X y. fst (load_model disk_os constant_forest counting_rng ''models/stress_model.pkl'' stuck_disk 0)
                = forest_fit constant_forest (mock_params sklearn_defaults) X y
          \<and> max_depth (mock_params sklearn_defaults) = None
          \<and> ncols X = 5 \<and> length (rows X) = 100 \<and> length y = 100"
    unfolding d n by blast
  from load_model_falls_back_to_mock [OF counting_rng_contract a2, of constant_forest 0]
  have c2: "\<exists>X y. fst (load_model disk_os constant_forest counting_rng ''models/stress_model.pkl'' corrupt_disk 0)
                = forest_fit constant_forest (mock_params sklearn_defaults) X y
          \<and> max_depth (mock_params sklearn_defaults) = None
          \<and> ncols X = 5 \<and> length (rows X) = 100 \<and> length y = 100"
    unfolding d n by blast
  from counting_rng_contract h1 h2 c1 c2 show ?thesis by blast
qed

end
